theory Spec2Isabelle
  imports Main "HOL-Library.Word"
begin

section \<open>The header \<^verbatim>\<open>network_c.h\<close>\<close>

text \<open>
  The repository's source is one C header. It holds no function body: between the lines of
  an include guard it includes R's \<^verbatim>\<open><Rinternals.h>\<close> and declares two functions.
  It is read as C of its time (2021, before C23).
  \<^verbatim>\<open>
   8  #ifndef NETWORK_H_
   9  #define NETWORK_H_
  11  #include <Rinternals.h>
  13  // call before calling anything else in this header
  14  void register_functions_C();
  16  // get out neighborhood of a vertex v in a graph g
  17  SEXP get_out_neighborhood_C(SEXP g, int v);
  19  // get out neighborhood
  21  #endif
  \<close>
  The header is embedded as the sequence of its preprocessing directives and external
  declarations, in source order. Comments and blank lines are not items: translation
  replaces a comment by a space before any directive is executed.
\<close>

subsection \<open>Types and declarations\<close>

text \<open>
  The type specifiers a declaration of this header names: \<^verbatim>\<open>void\<close>, \<^verbatim>\<open>int\<close>, and a
  typedef name (\<^verbatim>\<open>SEXP\<close>), whose definition lives in another header.
\<close>

datatype ctype = CVoid | CInt | CTypedefName string

text \<open>
  A function declarator with a parameter type list, that is, a prototype: the return type,
  the name, and the parameters written between the parentheses, each a type and a name.
  The list is empty for \<^verbatim>\<open>(void)\<close>.
\<close>

datatype fun_decl = FunDecl (ret: ctype) (fname: string) (params: "(ctype \<times> string) list")

text \<open>
  A function declarator whose parentheses are empty, \<^verbatim>\<open>()\<close>. Before C23 this is not a
  prototype: it gives the return type and the name and supplies no information about the
  number or the types of the parameters.
\<close>

datatype nonproto_decl = NonProtoDecl (nret: ctype) (nname: string)

text \<open>
  The items of a header. Only the first six kinds occur in \<^verbatim>\<open>network_c.h\<close>. A function
  definition (a declarator with a body), the definition of a struct, union or enum tag, a
  typedef and an object declaration are the other things a C header may hold.
\<close>

datatype item =
    IfNDef string
  | Define string
  | EndIf
  | Include string
  | Prototype fun_decl
  | NonPrototype nonproto_decl
  | FunctionDef fun_decl
  | TagDef string
  | TypeDef string
  | ObjectDecl ctype string

text \<open>Line 14 and line 17 of the header.\<close>

definition register_functions_C :: nonproto_decl where
  "register_functions_C = NonProtoDecl CVoid ''register_functions_C''"

definition get_out_neighborhood_C :: fun_decl where
  "get_out_neighborhood_C =
     FunDecl (CTypedefName ''SEXP'') ''get_out_neighborhood_C''
       [(CTypedefName ''SEXP'', ''g''), (CInt, ''v'')]"

text \<open>The whole file, lines 8 to 21.\<close>

definition network_c_h :: "item list" where
  "network_c_h =
     [ IfNDef ''NETWORK_H_'',
       Define ''NETWORK_H_'',
       Include ''Rinternals.h'',
       NonPrototype register_functions_C,
       Prototype get_out_neighborhood_C,
       EndIf ]"

subsection \<open>Reading a header\<close>




fun prototypes :: "item list \<Rightarrow> fun_decl list" where
  "prototypes [] = []"
| "prototypes (Prototype d # r) = d # prototypes r"
| "prototypes (x # r) = prototypes r"


text \<open>The names of the struct, union and enum tags and of the typedefs a header defines.\<close>

fun defined_types :: "item list \<Rightarrow> string list" where
  "defined_types [] = []"
| "defined_types (TagDef n # r) = n # defined_types r"
| "defined_types (TypeDef n # r) = n # defined_types r"
| "defined_types (x # r) = defined_types r"

text \<open>The prototype of the function named \<open>f\<close>, and the type of its parameter \<open>p\<close>.\<close>

definition lookup_decl :: "item list \<Rightarrow> string \<Rightarrow> fun_decl option" where
  "lookup_decl h f = find (\<lambda>d. fname d = f) (prototypes h)"

definition param_type :: "item list \<Rightarrow> string \<Rightarrow> string \<Rightarrow> ctype option" where
  "param_type h f p =
     (case lookup_decl h f of
        None \<Rightarrow> None
      | Some d \<Rightarrow> map_option fst (find (\<lambda>tn. snd tn = p) (params d)))"

text \<open>
  The functions a header declares, with or without a prototype, and the item that declares
  the function named \<open>f\<close>.
\<close>

fun declared_name :: "item \<Rightarrow> string option" where
  "declared_name (Prototype d) = Some (fname d)"
| "declared_name (NonPrototype u) = Some (nname u)"
| "declared_name (FunctionDef d) = Some (fname d)"
| "declared_name x = None"

fun declared_functions :: "item list \<Rightarrow> string list" where
  "declared_functions [] = []"
| "declared_functions (x # r) =
     (case declared_name x of
        None \<Rightarrow> declared_functions r
      | Some n \<Rightarrow> n # declared_functions r)"




text \<open>
  A type is opaque in a header when the header only names it: a typedef name that the
  header itself does not define.
\<close>

definition opaque_in :: "item list \<Rightarrow> ctype \<Rightarrow> bool" where
  "opaque_in h t =
     (case t of CTypedefName n \<Rightarrow> n \<notin> set (defined_types h) | _ \<Rightarrow> False)"



subsection \<open>Conditional inclusion\<close>

text \<open>
  What the preprocessor makes of a header's items. The state is the set \<open>D\<close> of macro names
  defined so far and the depth \<open>k\<close> of the conditional groups being skipped (\<open>0\<close>: the
  current group is live). \<^verbatim>\<open>#ifndef M\<close> opens a group that is skipped when \<open>M\<close> is defined;
  inside a skipped group only the nesting of conditionals is followed. A live
  \<^verbatim>\<open>#define\<close> enters its name into \<open>D\<close>; every other live item that is not a
  directive is passed on, in order.

  A live \<^verbatim>\<open>#include\<close> names a file outside the repository (\<^verbatim>\<open><Rinternals.h>\<close> is R's). Its
  text is not modelled: \<open>env f\<close> is what including \<open>f\<close> does to the macro names, and what
  \<open>f\<close> declares is not part of the output.
\<close>

fun preprocess ::
  "(string \<Rightarrow> string set \<Rightarrow> string set) \<Rightarrow> nat \<Rightarrow> string set \<Rightarrow> item list
     \<Rightarrow> string set \<times> item list" where
  "preprocess env k D [] = (D, [])"
| "preprocess env 0 D (IfNDef m # r) = preprocess env (if m \<in> D then 1 else 0) D r"
| "preprocess env (Suc k) D (IfNDef m # r) = preprocess env (Suc (Suc k)) D r"
| "preprocess env 0 D (EndIf # r) = preprocess env 0 D r"
| "preprocess env (Suc k) D (EndIf # r) = preprocess env k D r"
| "preprocess env (Suc k) D (x # r) = preprocess env (Suc k) D r"
| "preprocess env 0 D (Define m # r) = preprocess env 0 (insert m D) r"
| "preprocess env 0 D (Include f # r) = preprocess env 0 (env f D) r"
| "preprocess env 0 D (x # r) =
     (case preprocess env 0 D r of (D', out) \<Rightarrow> (D', x # out))"

text \<open>One \<^verbatim>\<open>#include "network_c.h"\<close>, and \<open>n\<close> of them one after the other.\<close>

definition include_network_c_h ::
  "(string \<Rightarrow> string set \<Rightarrow> string set) \<Rightarrow> string set \<Rightarrow> string set \<times> item list" where
  "include_network_c_h env D = preprocess env 0 D network_c_h"

fun include_times ::
  "(string \<Rightarrow> string set \<Rightarrow> string set) \<Rightarrow> nat \<Rightarrow> string set
     \<Rightarrow> string set \<times> item list" where
  "include_times env 0 D = (D, [])"
| "include_times env (Suc n) D =
     (case include_network_c_h env D of
        (D1, out1) \<Rightarrow>
          (case include_times env n D1 of (D2, out2) \<Rightarrow> (D2, out1 @ out2)))"

subsection \<open>The type \<^verbatim>\<open>int\<close>\<close>

text \<open>
  An \<^verbatim>\<open>int\<close> argument is a 32-bit word read in two's complement (\<open>sint\<close>): the header
  includes \<^verbatim>\<open><Rinternals.h>\<close>, and R is built only where \<^verbatim>\<open>int\<close> has 32 bits. The limits
  are those of \<^verbatim>\<open><limits.h>\<close> for that width; the header itself does not define them.
\<close>

type_synonym c_int = "32 word"

definition INT_MAX :: int where
  "INT_MAX = 2147483647"

definition INT_MIN :: int where
  "INT_MIN = - INT_MAX - 1"

text \<open>
  The integers an argument of a given declared type can carry. \<^verbatim>\<open>void\<close> has no values, and
  of a typedef name the header does not say that it is an integer type.
\<close>

fun representable :: "ctype \<Rightarrow> int \<Rightarrow> bool" where
  "representable CInt i = (INT_MIN \<le> i \<and> i \<le> INT_MAX)"
| "representable t i = False"

subsection \<open>The order of calls\<close>

text \<open>
  Modelled from the spec: the bodies of \<^verbatim>\<open>register_functions_C\<close> and
  \<^verbatim>\<open>get_out_neighborhood_C\<close> and the state they share are missing from the sources. The
  spec gives the registration's contract, "must be invoked before any other declared
  function", and the header's line 13 says the same: "call before calling anything else in
  this header".

  A call is the name of the function called; the state \<open>reg\<close> says whether the
  registration has happened. Calling \<^verbatim>\<open>register_functions_C\<close> makes it true. Calling any
  other function that the header \<open>h\<close> declares is within the contract only when it is
  true. A function that \<open>h\<close> does not declare is not bound by the contract. Neither the
  header nor the spec says whether a second registration is within the contract:
  \<open>once_only\<close> chooses, and rejects it when set.
\<close>

definition call_step :: "item list \<Rightarrow> bool \<Rightarrow> bool \<Rightarrow> string \<Rightarrow> bool option" where
  "call_step h once_only reg f =
     (if f = nname register_functions_C then (if once_only \<and> reg then None else Some True)
      else if f \<in> set (declared_functions h) then (if reg then Some reg else None)
      else Some reg)"

fun run_calls :: "item list \<Rightarrow> bool \<Rightarrow> bool \<Rightarrow> string list \<Rightarrow> bool option" where
  "run_calls h once_only reg [] = Some reg"
| "run_calls h once_only reg (f # fs) =
     (case call_step h once_only reg f of
        None \<Rightarrow> None
      | Some reg' \<Rightarrow> run_calls h once_only reg' fs)"

text \<open>A call sequence against \<^verbatim>\<open>network_c.h\<close> is valid when it starts unregistered and
  every call of it is within the contract.\<close>

definition valid_calls :: "bool \<Rightarrow> string list \<Rightarrow> bool" where
  "valid_calls once_only cs = (run_calls network_c_h once_only False cs \<noteq> None)"


section \<open>The declared signatures\<close>

lemma prototypes_network_c_h:
  "prototypes network_c_h = [get_out_neighborhood_C]"
  by (simp add: network_c_h_def)

lemma declared_functions_network_c_h:
  "declared_functions network_c_h = [''register_functions_C'', ''get_out_neighborhood_C'']"
  by (simp add: network_c_h_def register_functions_C_def get_out_neighborhood_C_def)



lemma lookup_get_out_neighborhood_C:
  "lookup_decl network_c_h ''get_out_neighborhood_C'' = Some get_out_neighborhood_C"
  by (simp add: lookup_decl_def prototypes_network_c_h get_out_neighborhood_C_def)



text \<open>
  Claim C3. The accessor \<^verbatim>\<open>get_out_neighborhood_C\<close> takes exactly two arguments, an opaque
  graph reference and an integer vertex index, and returns an opaque result type: the
  header declares it with the parameters \<^verbatim>\<open>SEXP g\<close> and \<^verbatim>\<open>int v\<close> and the return type
  \<^verbatim>\<open>SEXP\<close>, a typedef name that the header does not define.
\<close>

theorem get_out_neighborhood_C_signature:
  "lookup_decl network_c_h ''get_out_neighborhood_C'' =
     Some (FunDecl (CTypedefName ''SEXP'') ''get_out_neighborhood_C''
             [(CTypedefName ''SEXP'', ''g''), (CInt, ''v'')])
   \<and> map_option (\<lambda>d. length (params d)) (lookup_decl network_c_h ''get_out_neighborhood_C'')
       = Some 2
   \<and> opaque_in network_c_h (CTypedefName ''SEXP'')"
proof -
  have "opaque_in network_c_h (CTypedefName ''SEXP'')"
    by (simp add: opaque_in_def network_c_h_def)
  then show ?thesis
    by (simp add: lookup_get_out_neighborhood_C get_out_neighborhood_C_def)
qed




section \<open>The include guard\<close>

text \<open>
  Including the header where the guard is not yet defined defines it, includes
  \<^verbatim>\<open><Rinternals.h>\<close> and yields the two declarations; where the guard is defined, it
  yields nothing and changes nothing.
\<close>

lemma include_network_c_h_eq:
  "include_network_c_h env D =
     (if ''NETWORK_H_'' \<in> D then (D, [])
      else (env ''Rinternals.h'' (insert ''NETWORK_H_'' D),
            [NonPrototype register_functions_C, Prototype get_out_neighborhood_C]))"
  by (simp add: include_network_c_h_def network_c_h_def)

lemma include_times_guard_defined:
  "''NETWORK_H_'' \<in> D \<Longrightarrow> include_times env n D = (D, [])"
  by (induction n) (simp_all add: include_network_c_h_eq)

lemma include_times_Suc_fresh:
  assumes keeps: "\<And>D. ''NETWORK_H_'' \<in> D \<Longrightarrow> ''NETWORK_H_'' \<in> env ''Rinternals.h'' D"
    and fresh: "''NETWORK_H_'' \<notin> D"
  shows "include_times env (Suc n) D =
           (env ''Rinternals.h'' (insert ''NETWORK_H_'' D),
            [NonPrototype register_functions_C, Prototype get_out_neighborhood_C])"
proof -
  have "''NETWORK_H_'' \<in> env ''Rinternals.h'' (insert ''NETWORK_H_'' D)"
    by (rule keeps) simp
  then show ?thesis
    using fresh by (simp add: include_network_c_h_eq include_times_guard_defined)
qed

text \<open>
  Claim C8. Including \<^verbatim>\<open>network_c.h\<close> is idempotent within a translation unit. Provided
  that \<^verbatim>\<open><Rinternals.h>\<close> does not undefine the guard, \<open>n \<ge> 1\<close> inclusions in a row
  yield what one inclusion yields; one more inclusion after them contributes nothing; and
  where the guard was not defined beforehand, what they yield is the two declarations,
  once.
\<close>

theorem include_guard_idempotent:
  assumes keeps: "\<And>D. ''NETWORK_H_'' \<in> D \<Longrightarrow> ''NETWORK_H_'' \<in> env ''Rinternals.h'' D"
    and n: "0 < n"
  shows "snd (include_times env n D) = snd (include_network_c_h env D)
       \<and> snd (include_network_c_h env (fst (include_times env n D))) = []
       \<and> (''NETWORK_H_'' \<notin> D \<longrightarrow>
            snd (include_times env n D) =
              [NonPrototype register_functions_C, Prototype get_out_neighborhood_C])"
proof -
  from n obtain m where m: "n = Suc m"
    by (cases n) simp_all
  show ?thesis
  proof (cases "''NETWORK_H_'' \<in> D")
    case True
    then show ?thesis
      by (simp add: include_times_guard_defined include_network_c_h_eq)
  next
    case False
    have guard: "''NETWORK_H_'' \<in> env ''Rinternals.h'' (insert ''NETWORK_H_'' D)"
      by (rule keeps) simp
    have "include_times env n D =
            (env ''Rinternals.h'' (insert ''NETWORK_H_'' D),
             [NonPrototype register_functions_C, Prototype get_out_neighborhood_C])"
      unfolding m using keeps False by (rule include_times_Suc_fresh)
    with False guard show ?thesis
      by (simp add: include_network_c_h_eq)
  qed
qed

text \<open>
  Three inclusions from an empty macro table, with a \<^verbatim>\<open><Rinternals.h>\<close> that defines its
  own guard: the two declarations once, and nothing from a fourth inclusion.
\<close>

theorem include_guard_idempotent_witness:
  "snd (include_times (\<lambda>f D. insert ''R_INTERNALS_H_'' D) 3 {}) =
     [NonPrototype register_functions_C, Prototype get_out_neighborhood_C]
   \<and> snd (include_times (\<lambda>f D. insert ''R_INTERNALS_H_'' D) 3 {}) =
       snd (include_network_c_h (\<lambda>f D. insert ''R_INTERNALS_H_'' D) {})
   \<and> snd (include_network_c_h (\<lambda>f D. insert ''R_INTERNALS_H_'' D)
        (fst (include_times (\<lambda>f D. insert ''R_INTERNALS_H_'' D) 3 {}))) = []"
  using include_guard_idempotent [of "\<lambda>f D. insert ''R_INTERNALS_H_'' D" 3 "{}"]
  by (simp add: include_network_c_h_eq)


section \<open>The vertex parameter\<close>

text \<open>The limits are the limits of the 32-bit signed reading.\<close>

lemma representable_CInt_iff_sint:
  "representable CInt i \<longleftrightarrow> (\<exists>v::c_int. sint v = i)"
proof
  assume "representable CInt i"
  then have "sint (word_of_int i :: c_int) = i"
    by (simp add: INT_MIN_def INT_MAX_def signed_of_int signed_take_bit_int_eq_self)
  then show "\<exists>v::c_int. sint v = i" ..
next
  assume "\<exists>v::c_int. sint v = i"
  then obtain v :: c_int where v: "sint v = i" ..
  have "- (2 ^ (LENGTH(32) - Suc 0)) \<le> sint v" "sint v < 2 ^ (LENGTH(32) - Suc 0)"
    by (rule sint_greater_eq, rule sint_less)
  with v show "representable CInt i"
    by (simp add: INT_MIN_def INT_MAX_def)
qed

lemma param_type_v:
  "param_type network_c_h ''get_out_neighborhood_C'' ''v'' = Some CInt"
  by (simp add: param_type_def lookup_get_out_neighborhood_C get_out_neighborhood_C_def)

text \<open>
  Claim C9. The vertex parameter of \<^verbatim>\<open>get_out_neighborhood_C\<close> is a signed C
  \<^verbatim>\<open>int\<close>: the integers \<open>i\<close> its declared type admits are exactly the values of a 32-bit
  word read as signed; they are bounded above by \<open>INT_MAX\<close>, and \<open>INT_MAX + 1\<close> is not among
  them; zero and every negative integer down to \<open>INT_MIN\<close> are among them, so the
  declaration excludes neither.
\<close>

theorem vertex_parameter_signed_int:
  "\<exists>t. param_type network_c_h ''get_out_neighborhood_C'' ''v'' = Some t
     \<and> (representable t i \<longleftrightarrow> (\<exists>x::c_int. sint x = i))
     \<and> (representable t i \<longrightarrow> i \<le> INT_MAX)
     \<and> \<not> representable t (INT_MAX + 1)
     \<and> representable t 0
     \<and> (INT_MIN \<le> i \<and> i < 0 \<longrightarrow> representable t i)
     \<and> INT_MIN < 0"
proof -
  have "representable CInt i \<longleftrightarrow> (\<exists>x::c_int. sint x = i)"
    by (rule representable_CInt_iff_sint)
  moreover have "representable CInt i \<longrightarrow> i \<le> INT_MAX"
    by simp
  moreover have "\<not> representable CInt (INT_MAX + 1)" "representable CInt 0"
    "INT_MIN \<le> i \<and> i < 0 \<longrightarrow> representable CInt i" "INT_MIN < 0"
    by (simp_all add: INT_MIN_def INT_MAX_def)
  ultimately show ?thesis
    using param_type_v by blast
qed

text \<open>At the index \<open>-1\<close>: admitted, below \<open>INT_MAX\<close>, and the value of a signed word.\<close>

theorem vertex_parameter_signed_int_witness:
  "representable CInt (- 1) \<and> (- 1 :: int) \<le> INT_MAX \<and> (\<exists>x::c_int. sint x = - 1)
   \<and> INT_MIN \<le> - 1 \<and> representable CInt 0 \<and> \<not> representable CInt (INT_MAX + 1)"
  using vertex_parameter_signed_int [of "- 1"]
  by (simp add: param_type_v INT_MIN_def INT_MAX_def)


section \<open>Registration comes first\<close>

lemma call_step_network_c_h:
  "call_step network_c_h once_only reg ''register_functions_C'' =
     (if once_only \<and> reg then None else Some True)"
  "call_step network_c_h once_only reg ''get_out_neighborhood_C'' =
     (if reg then Some reg else None)"
  "f \<noteq> ''register_functions_C'' \<Longrightarrow> f \<noteq> ''get_out_neighborhood_C'' \<Longrightarrow>
     call_step network_c_h once_only reg f = Some reg"
  by (simp_all add: call_step_def declared_functions_network_c_h register_functions_C_def)

text \<open>
  A sequence that runs from the state \<open>reg\<close> without leaving the contract calls the
  accessor only after a registration, unless \<open>reg\<close> held from the start.
\<close>

lemma run_calls_registered:
  assumes "run_calls network_c_h once_only reg cs = Some r"
    and "i < length cs"
    and "cs ! i = ''get_out_neighborhood_C''"
  shows "reg \<or> (\<exists>j<i. cs ! j = ''register_functions_C'')"
  using assms
proof (induction cs arbitrary: reg i)
  case Nil
  then show ?case by simp
next
  case (Cons f fs)
  show ?case
  proof (cases i)
    case 0
    with Cons.prems show ?thesis
      by (auto simp: call_step_network_c_h split: option.splits if_splits)
  next
    case (Suc k)
    show ?thesis
    proof (cases "f = ''register_functions_C''")
      case True
      with Suc show ?thesis by auto
    next
      case False
      with Cons.prems obtain reg' where
        step: "call_step network_c_h once_only reg f = Some reg'" and
        rest: "run_calls network_c_h once_only reg' fs = Some r"
        by (auto split: option.splits)
      from step False have "reg' = reg"
        by (auto simp: call_step_def register_functions_C_def split: if_splits)
      with rest Cons.prems Suc Cons.IH [of reg k]
      have "reg \<or> (\<exists>j<k. fs ! j = ''register_functions_C'')" by simp
      then show ?thesis
        using Suc by auto
    qed
  qed
qed

text \<open>
  Conversely, where a repeated registration is allowed, the contract rejects nothing else:
  every sequence in which a registration precedes each call of the accessor is valid.
\<close>

lemma run_calls_accepts_ordered:
  assumes "\<And>i. i < length cs \<Longrightarrow> cs ! i = ''get_out_neighborhood_C'' \<Longrightarrow>
             reg \<or> (\<exists>j<i. cs ! j = ''register_functions_C'')"
  shows "run_calls network_c_h False reg cs \<noteq> None"
  using assms
proof (induction cs arbitrary: reg)
  case Nil
  then show ?case by simp
next
  case (Cons f fs)
  consider (reg) "f = ''register_functions_C''" | (get) "f = ''get_out_neighborhood_C''"
    | (other) "f \<noteq> ''register_functions_C''" "f \<noteq> ''get_out_neighborhood_C''"
    by blast
  then show ?case
  proof cases
    case reg
    have "run_calls network_c_h False True fs \<noteq> None"
      by (rule Cons.IH) simp
    with reg show ?thesis by (simp add: call_step_network_c_h)
  next
    case get
    from Cons.prems [of 0] get have r: reg by simp
    have "run_calls network_c_h False reg fs \<noteq> None"
      by (rule Cons.IH) (simp add: r)
    with get r show ?thesis by (simp add: call_step_network_c_h)
  next
    case other
    have "run_calls network_c_h False reg fs \<noteq> None"
    proof (rule Cons.IH)
      fix i assume i: "i < length fs" "fs ! i = ''get_out_neighborhood_C''"
      with Cons.prems [of "Suc i"]
      have "reg \<or> (\<exists>j<Suc i. (f # fs) ! j = ''register_functions_C'')"
        by simp
      then show "reg \<or> (\<exists>j<i. fs ! j = ''register_functions_C'')"
      proof
        assume reg then show ?thesis ..
      next
        assume "\<exists>j<Suc i. (f # fs) ! j = ''register_functions_C''"
        then obtain j where j: "j < Suc i" "(f # fs) ! j = ''register_functions_C''"
          by blast
        with other have "j \<noteq> 0" by (cases j) auto
        then obtain k where "j = Suc k" by (cases j) auto
        with j show ?thesis by auto
      qed
    qed
    with other show ?thesis by (simp add: call_step_network_c_h)
  qed
qed

text \<open>
  Claim C2. In every valid call sequence against this interface,
  \<^verbatim>\<open>register_functions_C\<close> is invoked before any call of \<^verbatim>\<open>get_out_neighborhood_C\<close>:
  whichever way a repeated registration is read, each position of a valid sequence that
  calls the accessor has a registration at an earlier position.
\<close>

theorem registration_precedes_get_out_neighborhood:
  assumes "valid_calls once_only cs"
    and "i < length cs"
    and "cs ! i = ''get_out_neighborhood_C''"
  shows "\<exists>j<i. cs ! j = ''register_functions_C''"
proof -
  from assms(1) obtain r where "run_calls network_c_h once_only False cs = Some r"
    by (auto simp: valid_calls_def)
  from run_calls_registered [OF this assms(2,3)] show ?thesis by simp
qed

text \<open>A registration followed by two calls of the accessor, looked at the last call.\<close>

theorem registration_precedes_get_out_neighborhood_witness:
  "valid_calls True
     [''register_functions_C'', ''get_out_neighborhood_C'', ''get_out_neighborhood_C'']
   \<and> (\<exists>j<2. [''register_functions_C'', ''get_out_neighborhood_C'',
               ''get_out_neighborhood_C''] ! j = ''register_functions_C'')"
proof -
  let ?cs = "[''register_functions_C'', ''get_out_neighborhood_C'', ''get_out_neighborhood_C'']"
  have v: "valid_calls True ?cs"
    by (simp add: valid_calls_def call_step_network_c_h)
  have "\<exists>j<2. ?cs ! j = ''register_functions_C''"
    by (rule registration_precedes_get_out_neighborhood [OF v]) simp_all
  with v show ?thesis by simp
qed

end
